theory Spec2Isabelle
  imports Main "HOL-Library.Sublist"
begin

section \<open>The values the script receives and prints\<close>

text \<open>
  \<^verbatim>\<open>examples/launched-by-extension.py\<close> is a script with one function, \<^verbatim>\<open>main\<close>. It
  reads one environment variable, opens a \<^verbatim>\<open>VSCodeClient\<close> in a \<^verbatim>\<open>with\<close> statement,
  makes a fixed sequence of calls on it, prints a few lines and ends the process with
  exit code 0 or 1. The client and the editor host behind it are not part of the script:
  here they are the environment, a function that answers each request.

  The host's answers are Python values. The script tests them for truth (\<^verbatim>\<open>if name:\<close>,
  \<^verbatim>\<open>if choice:\<close>) and formats them into f-strings, so the model has both operations on
  the values a JSON reply can hold: \<^verbatim>\<open>None\<close>, booleans, integers, strings, lists and
  dictionaries (floating point numbers are left out). A \<open>string\<close> is a list of 8-bit
  characters, read as the code points 0 to 255.
\<close>

datatype pyval =
    PyNone
  | PyBool bool
  | PyInt int
  | PyStr string
  | PyList "pyval list"
  | PyDict "(pyval \<times> pyval) list"

text \<open>Python's truth value testing (\<^verbatim>\<open>bool(v)\<close>).\<close>

fun truthy :: "pyval \<Rightarrow> bool" where
  "truthy PyNone = False"
| "truthy (PyBool b) = b"
| "truthy (PyInt i) = (i \<noteq> 0)"
| "truthy (PyStr s) = (s \<noteq> [])"
| "truthy (PyList xs) = (xs \<noteq> [])"
| "truthy (PyDict kvs) = (kvs \<noteq> [])"

text \<open>Decimal digits of a natural number and of an integer (\<^verbatim>\<open>str(i)\<close>).\<close>

fun nat_digits :: "nat \<Rightarrow> string" where
  "nat_digits n =
     (if n < 10 then [char_of (48 + n)]
      else nat_digits (n div 10) @ [char_of (48 + n mod 10)])"

declare nat_digits.simps [simp del]

definition int_str :: "int \<Rightarrow> string" where
  "int_str i = (if i < 0 then CHR ''-'' # nat_digits (nat (- i)) else nat_digits (nat i))"

text \<open>
  \<^verbatim>\<open>repr\<close> of a string: single quotes, unless the string holds a single quote and no
  double quote; the quote and the backslash are escaped, tab, newline and carriage return
  are written \<^verbatim>\<open>\t\<close>, \<^verbatim>\<open>\n\<close>, \<^verbatim>\<open>\r\<close>, and every other character that is not printable is
  written \<^verbatim>\<open>\xhh\<close>. Among the code points up to 255 the ones that are not printable are
  0 to 31, 127 to 160 and 173.
\<close>

definition hex_digit :: "nat \<Rightarrow> char" where
  "hex_digit n = (if n < 10 then char_of (48 + n) else char_of (87 + n))"

definition py_printable :: "char \<Rightarrow> bool" where
  "py_printable c =
     (let n = (of_char c :: nat) in 32 \<le> n \<and> \<not> (127 \<le> n \<and> n \<le> 160) \<and> n \<noteq> 173)"

definition repr_char :: "char \<Rightarrow> char \<Rightarrow> string" where
  "repr_char q c =
     (if c = q \<or> c = CHR 0x5C then [CHR 0x5C, c]
      else if c = CHR 0x09 then [CHR 0x5C, CHR ''t'']
      else if c = CHR 0x0A then [CHR 0x5C, CHR ''n'']
      else if c = CHR 0x0D then [CHR 0x5C, CHR ''r'']
      else if py_printable c then [c]
      else [CHR 0x5C, CHR ''x'',
            hex_digit ((of_char c :: nat) div 16), hex_digit ((of_char c :: nat) mod 16)])"

definition repr_str :: "string \<Rightarrow> string" where
  "repr_str s =
     (let q = (if CHR 0x27 \<in> set s \<and> CHR 0x22 \<notin> set s then CHR 0x22 else CHR 0x27)
      in q # concat (map (repr_char q) s) @ [q])"

text \<open>\<^verbatim>\<open>", ".join(parts)\<close>.\<close>

fun comma_join :: "string list \<Rightarrow> string" where
  "comma_join [] = []"
| "comma_join [s] = s"
| "comma_join (s # t # ss) = s @ '', '' @ comma_join (t # ss)"

text \<open>\<^verbatim>\<open>repr(v)\<close>, with the elements of a list and the items of a dictionary in order.\<close>

function py_repr :: "pyval \<Rightarrow> string"
  and py_repr_list :: "pyval list \<Rightarrow> string list"
  and py_repr_items :: "(pyval \<times> pyval) list \<Rightarrow> string list" where
  "py_repr PyNone = ''None''"
| "py_repr (PyBool b) = (if b then ''True'' else ''False'')"
| "py_repr (PyInt i) = int_str i"
| "py_repr (PyStr s) = repr_str s"
| "py_repr (PyList xs) = ''['' @ comma_join (py_repr_list xs) @ '']''"
| "py_repr (PyDict kvs) = ''{'' @ comma_join (py_repr_items kvs) @ ''}''"
| "py_repr_list [] = []"
| "py_repr_list (x # xs) = py_repr x # py_repr_list xs"
| "py_repr_items [] = []"
| "py_repr_items ((k, v) # kvs) = (py_repr k @ '': '' @ py_repr v) # py_repr_items kvs"
  by pat_completeness auto

termination
  by (relation "measure (case_sum size
        (case_sum (size_list size) (size_list (size_prod size size))))") auto

text \<open>
  What an f-string puts in place of \<^verbatim>\<open>{v}\<close>: \<^verbatim>\<open>format(v, "")\<close>, which is \<^verbatim>\<open>str(v)\<close>:
  a string as it is, every other value by its \<^verbatim>\<open>repr\<close>.
\<close>

fun py_str :: "pyval \<Rightarrow> string" where
  "py_str (PyStr s) = s"
| "py_str v = py_repr v"

text \<open>
  An error raised by the client: an instance of some subclass of \<^verbatim>\<open>Exception\<close>, with the
  name of its class and the text \<^verbatim>\<open>str(e)\<close> gives. (\<^verbatim>\<open>KeyboardInterrupt\<close> and
  \<^verbatim>\<open>SystemExit\<close> are not \<^verbatim>\<open>Exception\<close>s and are outside the model.)
\<close>

datatype pyexc = PyExc (exc_kind: string) (exc_str: string)

section \<open>Requests, the host and the trace of a run\<close>

text \<open>
  Every place where the script hands control to the client: the constructor call
  \<^verbatim>\<open>VSCodeClient(pipe_path=...)\<close>, the \<^verbatim>\<open>__enter__\<close> and \<^verbatim>\<open>__exit__\<close> of the \<^verbatim>\<open>with\<close>
  statement (scope exit gets the error that left the body, if one did), and the six
  methods called in the body, with their arguments. An options dictionary is the list
  of its items.
\<close>

datatype request =
    Construct string
  | ScopeEnter
  | ShowInformationMessage string
  | GetWorkspaceFolders
  | ShowInputBox "(string \<times> string) list"
  | CreateOutputChannel string string bool
  | ShowQuickPick "string list" "(string \<times> string) list"
  | SetStatusBarMessage string int
  | ScopeExit "pyexc option"

text \<open>A call raises (\<open>Inl\<close>) or returns a value (\<open>Inr\<close>).\<close>

type_synonym response = "pyexc + pyval"

text \<open>
  What can be observed of a run, in order: each request with the answer it got, and each
  line printed to standard output (one \<^verbatim>\<open>print\<close> call each).
\<close>

datatype event = Call request response | Print string

text \<open>
  The host answers a request knowing everything that happened before it. Any client
  and editor, also a mock or one that fails on the third call, is such a function.
\<close>

type_synonym host = "event list \<Rightarrow> request \<Rightarrow> response"

record run =
  trace :: "event list"
  exit_code :: int

definition call :: "host \<Rightarrow> request \<Rightarrow> event list \<Rightarrow> response \<times> event list" where
  "call h req tr = (let r = h tr req in (r, tr @ [Call req r]))"

definition print_line :: "string \<Rightarrow> event list \<Rightarrow> event list" where
  "print_line s tr = tr @ [Print s]"

section \<open>The script\<close>

text \<open>
  The block under \<^verbatim>\<open>if name:\<close> (lines 45 to 59). Each function of the body returns the
  error that left it, if any, and the trace so far.
\<close>

definition name_block :: "host \<Rightarrow> pyval \<Rightarrow> event list \<Rightarrow> pyexc option \<times> event list" where
  "name_block h name tr =
     (case call h (CreateOutputChannel ''Python Automation''
                    (''Hello, '' @ py_str name @ ''! This is Python speaking.\<newline>'')
                    True) tr of
        (Inl e, tr1) \<Rightarrow> (Some e, tr1)
      | (Inr _, tr1) \<Rightarrow>
          (case call h (ShowQuickPick [''Option A'', ''Option B'', ''Option C'']
                         [(''placeholder'', ''Hi '' @ py_str name @ '', choose an option'')]) tr1 of
             (Inl e, tr2) \<Rightarrow> (Some e, tr2)
           | (Inr choice, tr2) \<Rightarrow>
               if truthy choice then
                 (case call h (ShowInformationMessage (''You selected: '' @ py_str choice)) tr2 of
                    (Inl e, tr3) \<Rightarrow> (Some e, tr3)
                  | (Inr _, tr3) \<Rightarrow> (None, tr3))
               else (None, tr2)))"

text \<open>The body of the \<^verbatim>\<open>with\<close> statement (lines 30 to 64).\<close>

definition with_body :: "host \<Rightarrow> event list \<Rightarrow> pyexc option \<times> event list" where
  "with_body h tr =
     (case call h (ShowInformationMessage
                    ''Hello from Python! I was launched by another extension.'') tr of
        (Inl e, tr1) \<Rightarrow> (Some e, tr1)
      | (Inr _, tr1) \<Rightarrow>
          (case call h GetWorkspaceFolders tr1 of
             (Inl e, tr2) \<Rightarrow> (Some e, tr2)
           | (Inr folders, tr2) \<Rightarrow>
               (let tr3 = print_line (''Workspace folders: '' @ py_str folders) tr2 in
                case call h (ShowInputBox [(''prompt'', ''What's your name?''),
                                           (''placeholder'', ''Enter your name'')]) tr3 of
                  (Inl e, tr4) \<Rightarrow> (Some e, tr4)
                | (Inr name, tr4) \<Rightarrow>
                    (case (if truthy name then name_block h name tr4 else (None, tr4)) of
                       (Some e, tr5) \<Rightarrow> (Some e, tr5)
                     | (None, tr5) \<Rightarrow>
                         (case call h (SetStatusBarMessage ''Python automation completed!'' 5000)
                                 tr5 of
                            (Inl e, tr6) \<Rightarrow> (Some e, tr6)
                          | (Inr _, tr6) \<Rightarrow>
                              (None, print_line ''Automation completed successfully'' tr6))))))"

text \<open>
  Leaving the scope of a \<^verbatim>\<open>with\<close> statement: \<^verbatim>\<open>__exit__\<close> is called with the error that
  left the body, or with none. An error raised by \<^verbatim>\<open>__exit__\<close> itself goes on in place
  of the pending one; otherwise the language looks at what \<^verbatim>\<open>__exit__\<close> returned: a true
  value swallows the pending error, a false one lets it go on.
\<close>

text \<open>
  Modelled from the spec: the value \<^verbatim>\<open>VSCodeClient.__exit__\<close> returns. The client is not
  part of the script. The spec describes the session as a resource that is released on
  every exit path, with every failure of the call sequence reaching the handler at the
  outermost scope; so the value is taken to be false, as that of a method that closes the
  connection and returns nothing, and a pending error always goes on.
\<close>

fun exit_outcome :: "pyexc option \<Rightarrow> response \<Rightarrow> pyexc option" where
  "exit_outcome pending (Inl e') = Some e'"
| "exit_outcome pending (Inr v) = pending"

definition leave_scope ::
  "host \<Rightarrow> pyexc option \<Rightarrow> event list \<Rightarrow> pyexc option \<times> event list" where
  "leave_scope h pending tr =
     (case call h (ScopeExit pending) tr of (x, tr') \<Rightarrow> (exit_outcome pending x, tr'))"

text \<open>
  The \<^verbatim>\<open>with\<close> statement (line 29): the constructor runs, then \<^verbatim>\<open>__enter__\<close>; an error
  in either leaves the statement at once, and \<^verbatim>\<open>__exit__\<close> is not called. Once the scope
  is entered, the body runs and the scope is left, however the body ended.
\<close>

definition with_client :: "host \<Rightarrow> string \<Rightarrow> event list \<Rightarrow> pyexc option \<times> event list" where
  "with_client h pipe_path tr =
     (case call h (Construct pipe_path) tr of
        (Inl e, tr1) \<Rightarrow> (Some e, tr1)
      | (Inr _, tr1) \<Rightarrow>
          (case call h ScopeEnter tr1 of
             (Inl e, tr2) \<Rightarrow> (Some e, tr2)
           | (Inr _, tr2) \<Rightarrow>
               (case with_body h tr2 of (pending, tr3) \<Rightarrow> leave_scope h pending tr3)))"

text \<open>
  The \<^verbatim>\<open>try\<close> statement around it (lines 27 and 66 to 68) and the end of the process:
  an error that reaches \<^verbatim>\<open>except Exception as e\<close> is printed and \<^verbatim>\<open>sys.exit(1)\<close> ends
  the process with exit code 1; without one, \<^verbatim>\<open>main\<close> returns and the exit code is 0.
\<close>

fun try_except :: "pyexc option \<times> event list \<Rightarrow> run" where
  "try_except (None, tr) = \<lparr>trace = tr, exit_code = 0\<rparr>"
| "try_except (Some e, tr) =
     \<lparr>trace = print_line (''Error: '' @ exc_str e) tr, exit_code = 1\<rparr>"

text \<open>
  The block under \<^verbatim>\<open>if not pipe_path:\<close> (lines 21 to 23): two lines are printed and
  \<^verbatim>\<open>sys.exit(1)\<close>, outside every \<^verbatim>\<open>try\<close>, ends the process.
\<close>

definition missing_address :: run where
  "missing_address =
     \<lparr>trace =
        print_line ''This script should be launched by an extension using Sockpuppet API''
          (print_line ''Error: VSCODE_SOCKPUPPET_PIPE environment variable not set'' []),
      exit_code = 1\<rparr>"

text \<open>
  \<^verbatim>\<open>main\<close> (lines 15 to 68). \<^verbatim>\<open>os.environ\<close> is a map from names to strings;
  \<^verbatim>\<open>os.environ.get\<close> gives \<^verbatim>\<open>None\<close> for a name that is not set, and \<^verbatim>\<open>not pipe_path\<close>
  holds for \<^verbatim>\<open>None\<close> and for the empty string.
\<close>

definition main :: "(string \<rightharpoonup> string) \<Rightarrow> host \<Rightarrow> run" where
  "main environ h =
     (case environ ''VSCODE_SOCKPUPPET_PIPE'' of
        None \<Rightarrow> missing_address
      | Some pipe_path \<Rightarrow>
          if pipe_path = [] then missing_address
          else
            try_except
              (with_client h pipe_path
                 (print_line (''Connecting to VS Code via: '' @ pipe_path) [])))"

section \<open>Observations on a run\<close>

text \<open>The requests of a trace, the answers they got and the lines printed, each in order.\<close>

fun requests_of :: "event list \<Rightarrow> request list" where
  "requests_of [] = []"
| "requests_of (Call req r # evs) = req # requests_of evs"
| "requests_of (Print s # evs) = requests_of evs"

fun responses_of :: "event list \<Rightarrow> response list" where
  "responses_of [] = []"
| "responses_of (Call req r # evs) = r # responses_of evs"
| "responses_of (Print s # evs) = responses_of evs"

fun output_of :: "event list \<Rightarrow> string list" where
  "output_of [] = []"
| "output_of (Call req r # evs) = output_of evs"
| "output_of (Print s # evs) = s # output_of evs"

text \<open>The kinds of request.\<close>

fun is_construct :: "request \<Rightarrow> bool" where
  "is_construct (Construct p) = True"
| "is_construct req = False"

fun is_scope_enter :: "request \<Rightarrow> bool" where
  "is_scope_enter ScopeEnter = True"
| "is_scope_enter req = False"

fun is_scope_exit :: "request \<Rightarrow> bool" where
  "is_scope_exit (ScopeExit pending) = True"
| "is_scope_exit req = False"

fun is_notification :: "request \<Rightarrow> bool" where
  "is_notification (ShowInformationMessage text) = True"
| "is_notification req = False"

fun is_get_folders :: "request \<Rightarrow> bool" where
  "is_get_folders GetWorkspaceFolders = True"
| "is_get_folders req = False"

fun is_input_box :: "request \<Rightarrow> bool" where
  "is_input_box (ShowInputBox options) = True"
| "is_input_box req = False"

fun is_output_channel :: "request \<Rightarrow> bool" where
  "is_output_channel (CreateOutputChannel name text show) = True"
| "is_output_channel req = False"

fun is_quick_pick :: "request \<Rightarrow> bool" where
  "is_quick_pick (ShowQuickPick items options) = True"
| "is_quick_pick req = False"

fun is_status_bar :: "request \<Rightarrow> bool" where
  "is_status_bar (SetStatusBarMessage text timeout) = True"
| "is_status_bar req = False"

text \<open>
  A UI action is a call of one of the six methods of the body; opening and leaving the
  session are not.
\<close>

definition is_ui :: "request \<Rightarrow> bool" where
  "is_ui req = (\<not> is_construct req \<and> \<not> is_scope_enter req \<and> \<not> is_scope_exit req)"

text \<open>A call that raised, and a UI action that raised.\<close>

fun raised :: "event \<Rightarrow> bool" where
  "raised (Call req (Inl e)) = True"
| "raised ev = False"

fun ui_raised :: "event \<Rightarrow> bool" where
  "ui_raised (Call req (Inl e)) = is_ui req"
| "ui_raised ev = False"

text \<open>The answer to the first request of some kind, if the run made one.\<close>

fun answer_to :: "(request \<Rightarrow> bool) \<Rightarrow> event list \<Rightarrow> response option" where
  "answer_to P [] = None"
| "answer_to P (Call req r # evs) = (if P req then Some r else answer_to P evs)"
| "answer_to P (Print s # evs) = answer_to P evs"

text \<open>The value that call returned; none if it was not made or raised.\<close>

definition returned :: "(request \<Rightarrow> bool) \<Rightarrow> event list \<Rightarrow> pyval option" where
  "returned P tr = (case answer_to P tr of Some (Inr v) \<Rightarrow> Some v | _ \<Rightarrow> None)"

text \<open>What happened after an event (after its first occurrence).\<close>

fun events_after :: "event \<Rightarrow> event list \<Rightarrow> event list" where
  "events_after ev [] = []"
| "events_after ev (x # xs) = (if x = ev then xs else events_after ev xs)"

text \<open>The trace from the first request of some kind on.\<close>

fun events_from :: "(request \<Rightarrow> bool) \<Rightarrow> event list \<Rightarrow> event list" where
  "events_from P [] = []"
| "events_from P (Call req r # evs) = (if P req then Call req r # evs else events_from P evs)"
| "events_from P (Print s # evs) = events_from P evs"

section \<open>The requests and lines of the script, named\<close>

text \<open>Short names for the requests the script makes and the lines it prints.\<close>

abbreviation greeting_request :: request where
  "greeting_request \<equiv>
     ShowInformationMessage ''Hello from Python! I was launched by another extension.''"

abbreviation input_box_request :: request where
  "input_box_request \<equiv>
     ShowInputBox [(''prompt'', ''What's your name?''), (''placeholder'', ''Enter your name'')]"

abbreviation output_channel_request :: "pyval \<Rightarrow> request" where
  "output_channel_request name \<equiv>
     CreateOutputChannel ''Python Automation''
       (''Hello, '' @ py_str name @ ''! This is Python speaking.\<newline>'') True"

abbreviation quick_pick_request :: "pyval \<Rightarrow> request" where
  "quick_pick_request name \<equiv>
     ShowQuickPick [''Option A'', ''Option B'', ''Option C'']
       [(''placeholder'', ''Hi '' @ py_str name @ '', choose an option'')]"

abbreviation selection_request :: "pyval \<Rightarrow> request" where
  "selection_request choice \<equiv> ShowInformationMessage (''You selected: '' @ py_str choice)"

abbreviation status_bar_request :: request where
  "status_bar_request \<equiv> SetStatusBarMessage ''Python automation completed!'' 5000"

abbreviation connecting_line :: "string \<Rightarrow> event" where
  "connecting_line p \<equiv> Print (''Connecting to VS Code via: '' @ p)"

abbreviation folders_line :: "pyval \<Rightarrow> event" where
  "folders_line folders \<equiv> Print (''Workspace folders: '' @ py_str folders)"

abbreviation completion_line :: event where
  "completion_line \<equiv> Print ''Automation completed successfully''"

abbreviation error_line :: "pyexc \<Rightarrow> event" where
  "error_line e \<equiv> Print (''Error: '' @ exc_str e)"

text \<open>The events of the body up to a name, and of the name block up to a choice.\<close>

abbreviation asked :: "pyval \<Rightarrow> pyval \<Rightarrow> pyval \<Rightarrow> event list" where
  "asked g folders name \<equiv>
     [Call greeting_request (Inr g), Call GetWorkspaceFolders (Inr folders),
      folders_line folders, Call input_box_request (Inr name)]"

abbreviation picked :: "pyval \<Rightarrow> pyval \<Rightarrow> pyval \<Rightarrow> event list" where
  "picked name c choice \<equiv>
     [Call (output_channel_request name) (Inr c), Call (quick_pick_request name) (Inr choice)]"

text \<open>
  The run of a process that opened its session (the constructor returned \<open>a\<close>,
  \<^verbatim>\<open>__enter__\<close> returned \<open>b\<close>), whose body left the events \<open>evs\<close> and the pending error,
  and whose \<^verbatim>\<open>__exit__\<close> was answered by \<open>x\<close>.
\<close>

definition session_run ::
  "string \<Rightarrow> pyval \<Rightarrow> pyval \<Rightarrow> event list \<Rightarrow> pyexc option \<Rightarrow> response \<Rightarrow> run" where
  "session_run p a b evs pending x =
     try_except
       (exit_outcome pending x,
        [connecting_line p, Call (Construct p) (Inr a), Call ScopeEnter (Inr b)] @ evs @
        [Call (ScopeExit pending) x])"

section \<open>The order of calls the specification gives\<close>

text \<open>
  The sequence of UI actions as the specification words it (section 4.1, step 3), with
  the specification's own conditions and not the script's test. The input box gives
  ``either a string or an explicit no input signal'', the quick pick ``either the
  selected item or an explicit no selection signal''; the signal is \<^verbatim>\<open>None\<close>, and a name
  was obtained, or a selection made, when the call returned anything else. The sequence:
  a notification, the workspace folders, the input box; if a name was obtained, the
  output channel and the quick pick; if a selection was made, the second notification;
  then the status bar message. The arguments are what the input box and the quick pick
  returned, if they returned; \<open>obtained\<close> says that a call returned and did not return
  the signal.
\<close>

definition obtained :: "pyval option \<Rightarrow> bool" where
  "obtained r = (case r of None \<Rightarrow> False | Some v \<Rightarrow> v \<noteq> PyNone)"

definition spec_sequence :: "pyval option \<Rightarrow> pyval option \<Rightarrow> request list" where
  "spec_sequence name choice =
     [greeting_request, GetWorkspaceFolders, input_box_request] @
     (case name of
        None \<Rightarrow> []
      | Some n \<Rightarrow>
          if n = PyNone then []
          else
            [output_channel_request n, quick_pick_request n] @
            (case choice of
               None \<Rightarrow> []
             | Some c \<Rightarrow> if c = PyNone then [] else [selection_request c])) @
     [status_bar_request]"

section \<open>Hosts to run the script against\<close>

text \<open>
  A host that answers from a script: the request number \<open>n\<close> of the run gets the
  answer number \<open>n\<close> of the list, and \<^verbatim>\<open>None\<close> once the list is used up.
\<close>

fun script_answer :: "response list \<Rightarrow> event list \<Rightarrow> response" where
  "script_answer [] tr = Inr PyNone"
| "script_answer (r # rs) [] = r"
| "script_answer (r # rs) (Call req x # tr) = script_answer rs tr"
| "script_answer (r # rs) (Print s # tr) = script_answer (r # rs) tr"

definition scripted :: "response list \<Rightarrow> host" where
  "scripted rs tr req = script_answer rs tr"

text \<open>
  A mock editor: it has the given workspace folders, types the given name into the
  input box and picks the given item; every other call returns \<^verbatim>\<open>None\<close>.
\<close>

definition mock_host :: "pyval \<Rightarrow> pyval \<Rightarrow> pyval \<Rightarrow> host" where
  "mock_host folders name choice tr req =
     (case req of
        GetWorkspaceFolders \<Rightarrow> Inr folders
      | ShowInputBox options \<Rightarrow> Inr name
      | ShowQuickPick items options \<Rightarrow> Inr choice
      | _ \<Rightarrow> Inr PyNone)"

text \<open>A host that raises an error on the requests of one kind and is the mock otherwise.\<close>

definition failing_at :: "(request \<Rightarrow> bool) \<Rightarrow> pyexc \<Rightarrow> host \<Rightarrow> host" where
  "failing_at P e h tr req = (if P req then Inl e else h tr req)"

text \<open>The environment an extension sets up for the script, and one without the variable.\<close>

definition launched_environ :: "string \<rightharpoonup> string" where
  "launched_environ = [''VSCODE_SOCKPUPPET_PIPE'' \<mapsto> ''/tmp/sockpuppet.sock'']"

definition bare_environ :: "string \<rightharpoonup> string" where
  "bare_environ = [''HOME'' \<mapsto> ''/home/ada'']"

text \<open>
  Mock editors for the runs of the specification's testable properties: a user who
  types a name and picks an item, one who cancels the input box, one who enters nothing,
  one who cancels the quick pick.
\<close>

definition ada_host :: host where
  "ada_host = mock_host (PyList [PyStr ''/ws/a'']) (PyStr ''Ada'') (PyStr ''Option B'')"

definition cancelling_host :: host where
  "cancelling_host = mock_host (PyList [PyStr ''/ws/a'']) PyNone PyNone"

definition silent_host :: host where
  "silent_host = mock_host (PyList []) (PyStr []) PyNone"

definition undecided_host :: host where
  "undecided_host = mock_host (PyList [PyStr ''/ws/a'']) (PyStr ''Ada'') PyNone"

text \<open>Hosts that fail: no pipe to connect to, and a quick pick that times out.\<close>

definition no_pipe :: pyexc where
  "no_pipe = PyExc ''ConnectionError'' ''Could not connect to VS Code''"

definition timed_out :: pyexc where
  "timed_out = PyExc ''TimeoutError'' ''request timed out''"

definition unreachable_host :: host where
  "unreachable_host = failing_at is_construct no_pipe ada_host"

definition closed_host :: host where
  "closed_host = failing_at is_scope_enter no_pipe ada_host"

definition stalling_host :: host where
  "stalling_host = failing_at is_quick_pick timed_out ada_host"

text \<open>A host whose quick pick times out and whose scope exit then fails as well.\<close>

definition broken_pipe :: pyexc where
  "broken_pipe = PyExc ''BrokenPipeError'' ''pipe closed''"

definition double_fault_host :: host where
  "double_fault_host = failing_at is_scope_exit broken_pipe stalling_host"

text \<open>The answers \<open>ada_host\<close> gives in a full run, as a script.\<close>

definition ada_script :: "response list" where
  "ada_script =
     [Inr PyNone, Inr PyNone, Inr PyNone, Inr (PyList [PyStr ''/ws/a'']), Inr (PyStr ''Ada''),
      Inr PyNone, Inr (PyStr ''Option B''), Inr PyNone, Inr PyNone, Inr PyNone]"

definition home_environ :: "string \<rightharpoonup> string" where
  "home_environ = launched_environ(''HOME'' \<mapsto> ''/home/ada'')"

section \<open>The shape of every run\<close>

text \<open>
  The script has no loop, so a run is one of finitely many paths, told apart by which
  call raised and by the truth of the name and of the choice. The lemmas of this section
  list the paths: of the name block, of the body, and of the whole of \<^verbatim>\<open>main\<close>.
\<close>

lemma call_eq: "call h req tr = (h tr req, tr @ [Call req (h tr req)])"
  by (simp add: call_def Let_def)

lemma name_block_shape:
  "(\<exists>e. name_block h name tr = (Some e, tr @ [Call (output_channel_request name) (Inl e)])) \<or>
   (\<exists>c e. name_block h name tr =
         (Some e, tr @ [Call (output_channel_request name) (Inr c),
                        Call (quick_pick_request name) (Inl e)])) \<or>
   (\<exists>c choice. \<not> truthy choice \<and>
      name_block h name tr =
         (None, tr @ [Call (output_channel_request name) (Inr c),
                      Call (quick_pick_request name) (Inr choice)])) \<or>
   (\<exists>c choice e. truthy choice \<and>
      name_block h name tr =
         (Some e, tr @ [Call (output_channel_request name) (Inr c),
                        Call (quick_pick_request name) (Inr choice),
                        Call (selection_request choice) (Inl e)])) \<or>
   (\<exists>c choice s. truthy choice \<and>
      name_block h name tr =
         (None, tr @ [Call (output_channel_request name) (Inr c),
                      Call (quick_pick_request name) (Inr choice),
                      Call (selection_request choice) (Inr s)]))"
  by (simp add: name_block_def call_eq split: sum.splits)

lemma name_block_cases:
  obtains
    (channel_fails) e where
      "name_block h name tr = (Some e, tr @ [Call (output_channel_request name) (Inl e)])"
  | (pick_fails) c e where
      "name_block h name tr =
         (Some e, tr @ [Call (output_channel_request name) (Inr c),
                        Call (quick_pick_request name) (Inl e)])"
  | (nothing_picked) c choice where "\<not> truthy choice"
      "name_block h name tr =
         (None, tr @ [Call (output_channel_request name) (Inr c),
                      Call (quick_pick_request name) (Inr choice)])"
  | (selection_fails) c choice e where "truthy choice"
      "name_block h name tr =
         (Some e, tr @ [Call (output_channel_request name) (Inr c),
                        Call (quick_pick_request name) (Inr choice),
                        Call (selection_request choice) (Inl e)])"
  | (selection_shown) c choice s where "truthy choice"
      "name_block h name tr =
         (None, tr @ [Call (output_channel_request name) (Inr c),
                      Call (quick_pick_request name) (Inr choice),
                      Call (selection_request choice) (Inr s)])"
  using name_block_shape [of h name tr] by blast

lemma status_bar_tail:
  obtains (status_raises) e where
      "(case call h status_bar_request tr of
          (Inl e, tr6) \<Rightarrow> (Some e, tr6)
        | (Inr s, tr6) \<Rightarrow> (None, print_line ''Automation completed successfully'' tr6)) =
       (Some e, tr @ [Call status_bar_request (Inl e)])"
  | (completed) s where
      "(case call h status_bar_request tr of
          (Inl e, tr6) \<Rightarrow> (Some e, tr6)
        | (Inr s, tr6) \<Rightarrow> (None, print_line ''Automation completed successfully'' tr6)) =
       (None, tr @ [Call status_bar_request (Inr s), completion_line])"
  by (cases "h tr status_bar_request") (simp_all add: call_eq print_line_def)

lemma with_body_named:
  assumes "h tr greeting_request = Inr g"
    and "h (tr @ [Call greeting_request (Inr g)]) GetWorkspaceFolders = Inr folders"
    and "h (tr @ [Call greeting_request (Inr g), Call GetWorkspaceFolders (Inr folders),
                  folders_line folders]) input_box_request = Inr name"
  shows "with_body h tr =
     (case (if truthy name then name_block h name (tr @ asked g folders name)
            else (None, tr @ asked g folders name)) of
        (Some e, tr5) \<Rightarrow> (Some e, tr5)
      | (None, tr5) \<Rightarrow>
          (case call h status_bar_request tr5 of
             (Inl e, tr6) \<Rightarrow> (Some e, tr6)
           | (Inr s, tr6) \<Rightarrow> (None, print_line ''Automation completed successfully'' tr6)))"
  using assms by (simp add: with_body_def call_eq [of h greeting_request]
      call_eq [of h GetWorkspaceFolders] call_eq [of h input_box_request] print_line_def Let_def)

lemma with_body_cases:
  obtains
    (body_greeting_raises) e where
      "with_body h tr = (Some e, tr @ [Call greeting_request (Inl e)])"
  | (body_folders_raises) g e where
      "with_body h tr =
         (Some e, tr @ [Call greeting_request (Inr g), Call GetWorkspaceFolders (Inl e)])"
  | (body_input_raises) g folders e where
      "with_body h tr =
         (Some e, tr @ [Call greeting_request (Inr g), Call GetWorkspaceFolders (Inr folders),
           folders_line folders, Call input_box_request (Inl e)])"
  | (body_no_name_status_raises) g folders name e where "\<not> truthy name"
      "with_body h tr =
         (Some e, tr @ asked g folders name @ [Call status_bar_request (Inl e)])"
  | (body_no_name_completed) g folders name s where "\<not> truthy name"
      "with_body h tr =
         (None, tr @ asked g folders name @ [Call status_bar_request (Inr s), completion_line])"
  | (body_channel_raises) g folders name e where "truthy name"
      "with_body h tr =
         (Some e, tr @ asked g folders name @ [Call (output_channel_request name) (Inl e)])"
  | (body_pick_raises) g folders name c e where "truthy name"
      "with_body h tr =
         (Some e, tr @ asked g folders name @
           [Call (output_channel_request name) (Inr c), Call (quick_pick_request name) (Inl e)])"
  | (body_no_choice_status_raises) g folders name c choice e where "truthy name" "\<not> truthy choice"
      "with_body h tr =
         (Some e, tr @ asked g folders name @ picked name c choice @ [Call status_bar_request (Inl e)])"
  | (body_no_choice_completed) g folders name c choice s where "truthy name" "\<not> truthy choice"
      "with_body h tr =
         (None, tr @ asked g folders name @ picked name c choice @
           [Call status_bar_request (Inr s), completion_line])"
  | (body_selection_raises) g folders name c choice e where "truthy name" "truthy choice"
      "with_body h tr =
         (Some e, tr @ asked g folders name @ picked name c choice @
           [Call (selection_request choice) (Inl e)])"
  | (body_selected_status_raises) g folders name c choice n e where "truthy name" "truthy choice"
      "with_body h tr =
         (Some e, tr @ asked g folders name @ picked name c choice @
           [Call (selection_request choice) (Inr n), Call status_bar_request (Inl e)])"
  | (body_selected_completed) g folders name c choice n s where "truthy name" "truthy choice"
      "with_body h tr =
         (None, tr @ asked g folders name @ picked name c choice @
           [Call (selection_request choice) (Inr n), Call status_bar_request (Inr s),
            completion_line])"
proof (cases "h tr greeting_request")
  case (Inl e)
  then have "with_body h tr = (Some e, tr @ [Call greeting_request (Inl e)])"
    by (simp add: with_body_def call_eq)
  then show thesis by (rule body_greeting_raises)
next
  case g: (Inr g)
  show thesis
  proof (cases "h (tr @ [Call greeting_request (Inr g)]) GetWorkspaceFolders")
    case (Inl e)
    with g have "with_body h tr =
        (Some e, tr @ [Call greeting_request (Inr g), Call GetWorkspaceFolders (Inl e)])"
      by (simp add: with_body_def call_eq)
    then show thesis by (rule body_folders_raises)
  next
    case f: (Inr folders)
    show thesis
    proof (cases "h (tr @ [Call greeting_request (Inr g), Call GetWorkspaceFolders (Inr folders),
                          folders_line folders]) input_box_request")
      case (Inl e)
      with g f have "with_body h tr =
          (Some e, tr @ [Call greeting_request (Inr g), Call GetWorkspaceFolders (Inr folders),
                         folders_line folders, Call input_box_request (Inl e)])"
        by (simp add: with_body_def call_eq print_line_def Let_def)
      then show thesis by (rule body_input_raises)
    next
      case n: (Inr name)
      note body = with_body_named [OF g f n]
      show thesis
      proof (cases "truthy name")
        case no_name: False
        show thesis
        proof (cases rule: status_bar_tail [of h "tr @ asked g folders name"])
          case (status_raises e)
          with body no_name have "with_body h tr =
              (Some e, tr @ asked g folders name @ [Call status_bar_request (Inl e)])"
            by simp
          with no_name show thesis by (rule body_no_name_status_raises)
        next
          case (completed s)
          with body no_name have "with_body h tr =
              (None, tr @ asked g folders name @ [Call status_bar_request (Inr s), completion_line])"
            by simp
          with no_name show thesis by (rule body_no_name_completed)
        qed
      next
        case has_name: True
        show thesis
        proof (cases rule: name_block_cases [of h name "tr @ asked g folders name"])
          case (channel_fails e)
          with body has_name have "with_body h tr =
              (Some e, tr @ asked g folders name @ [Call (output_channel_request name) (Inl e)])"
            by simp
          with has_name show thesis by (rule body_channel_raises)
        next
          case (pick_fails c e)
          with body has_name have "with_body h tr =
              (Some e, tr @ asked g folders name @
                [Call (output_channel_request name) (Inr c),
                 Call (quick_pick_request name) (Inl e)])"
            by simp
          with has_name show thesis by (rule body_pick_raises)
        next
          case (nothing_picked c choice)
          show thesis
          proof (cases rule: status_bar_tail
              [of h "tr @ asked g folders name @ picked name c choice"])
            case (status_raises e)
            with body has_name nothing_picked have "with_body h tr =
                (Some e, tr @ asked g folders name @ picked name c choice @
                  [Call status_bar_request (Inl e)])"
              by simp
            with has_name nothing_picked(1) show thesis by (rule body_no_choice_status_raises)
          next
            case (completed s)
            with body has_name nothing_picked have "with_body h tr =
                (None, tr @ asked g folders name @ picked name c choice @
                  [Call status_bar_request (Inr s), completion_line])"
              by simp
            with has_name nothing_picked(1) show thesis by (rule body_no_choice_completed)
          qed
        next
          case (selection_fails c choice e)
          with body has_name have "with_body h tr =
              (Some e, tr @ asked g folders name @ picked name c choice @
                [Call (selection_request choice) (Inl e)])"
            by simp
          with has_name selection_fails(1) show thesis by (rule body_selection_raises)
        next
          case (selection_shown c choice n)
          show thesis
          proof (cases rule: status_bar_tail
              [of h "tr @ asked g folders name @ picked name c choice @
                      [Call (selection_request choice) (Inr n)]"])
            case (status_raises e)
            with body has_name selection_shown have "with_body h tr =
                (Some e, tr @ asked g folders name @ picked name c choice @
                  [Call (selection_request choice) (Inr n), Call status_bar_request (Inl e)])"
              by simp
            with has_name selection_shown(1) show thesis by (rule body_selected_status_raises)
          next
            case (completed s)
            with body has_name selection_shown have "with_body h tr =
                (None, tr @ asked g folders name @ picked name c choice @
                  [Call (selection_request choice) (Inr n), Call status_bar_request (Inr s),
                   completion_line])"
              by simp
            with has_name selection_shown(1) show thesis by (rule body_selected_completed)
          qed
        qed
      qed
    qed
  qed
qed

lemma main_session:
  assumes "environ ''VSCODE_SOCKPUPPET_PIPE'' = Some p" and "p \<noteq> []"
    and "h [connecting_line p] (Construct p) = Inr a"
    and "h [connecting_line p, Call (Construct p) (Inr a)] ScopeEnter = Inr b"
    and "with_body h [connecting_line p, Call (Construct p) (Inr a), Call ScopeEnter (Inr b)] =
         (pending, [connecting_line p, Call (Construct p) (Inr a), Call ScopeEnter (Inr b)] @ evs)"
  shows "main environ h =
     session_run p a b evs pending
       (h ([connecting_line p, Call (Construct p) (Inr a), Call ScopeEnter (Inr b)] @ evs)
          (ScopeExit pending))"
  using assms
  by (simp add: main_def with_client_def leave_scope_def call_eq print_line_def session_run_def)

lemma main_cases:
  obtains
    (unset) "environ ''VSCODE_SOCKPUPPET_PIPE'' = None" "main environ h = missing_address"
  | (empty) "environ ''VSCODE_SOCKPUPPET_PIPE'' = Some []" "main environ h = missing_address"
  | (construct_raises) p e where "environ ''VSCODE_SOCKPUPPET_PIPE'' = Some p" "p \<noteq> []"
      "main environ h =
         \<lparr>trace = [connecting_line p, Call (Construct p) (Inl e), error_line e], exit_code = 1\<rparr>"
  | (enter_raises) p a e where "environ ''VSCODE_SOCKPUPPET_PIPE'' = Some p" "p \<noteq> []"
      "main environ h =
         \<lparr>trace = [connecting_line p, Call (Construct p) (Inr a), Call ScopeEnter (Inl e),
                   error_line e],
          exit_code = 1\<rparr>"
  | (greeting_raises) p a b e x where
      "environ ''VSCODE_SOCKPUPPET_PIPE'' = Some p" "p \<noteq> []"
      "main environ h =
         session_run p a b
          [Call greeting_request (Inl e)]
          (Some e) x"
  | (folders_raises) p a b g e x where
      "environ ''VSCODE_SOCKPUPPET_PIPE'' = Some p" "p \<noteq> []"
      "main environ h =
         session_run p a b
          [Call greeting_request (Inr g), Call GetWorkspaceFolders (Inl e)]
          (Some e) x"
  | (input_raises) p a b g folders e x where
      "environ ''VSCODE_SOCKPUPPET_PIPE'' = Some p" "p \<noteq> []"
      "main environ h =
         session_run p a b
          [Call greeting_request (Inr g), Call GetWorkspaceFolders (Inr folders),
           folders_line folders, Call input_box_request (Inl e)]
          (Some e) x"
  | (no_name_status_raises) p a b g folders name e x where
      "environ ''VSCODE_SOCKPUPPET_PIPE'' = Some p" "p \<noteq> []" "\<not> truthy name"
      "main environ h =
         session_run p a b
          (asked g folders name @ [Call status_bar_request (Inl e)])
          (Some e) x"
  | (no_name_completed) p a b g folders name s x where
      "environ ''VSCODE_SOCKPUPPET_PIPE'' = Some p" "p \<noteq> []" "\<not> truthy name"
      "main environ h =
         session_run p a b
          (asked g folders name @ [Call status_bar_request (Inr s), completion_line])
          None x"
  | (channel_raises) p a b g folders name e x where
      "environ ''VSCODE_SOCKPUPPET_PIPE'' = Some p" "p \<noteq> []" "truthy name"
      "main environ h =
         session_run p a b
          (asked g folders name @ [Call (output_channel_request name) (Inl e)])
          (Some e) x"
  | (pick_raises) p a b g folders name c e x where
      "environ ''VSCODE_SOCKPUPPET_PIPE'' = Some p" "p \<noteq> []" "truthy name"
      "main environ h =
         session_run p a b
          (asked g folders name @
           [Call (output_channel_request name) (Inr c), Call (quick_pick_request name) (Inl e)])
          (Some e) x"
  | (no_choice_status_raises) p a b g folders name c choice e x where
      "environ ''VSCODE_SOCKPUPPET_PIPE'' = Some p" "p \<noteq> []" "truthy name" "\<not> truthy choice"
      "main environ h =
         session_run p a b
          (asked g folders name @ picked name c choice @ [Call status_bar_request (Inl e)])
          (Some e) x"
  | (no_choice_completed) p a b g folders name c choice s x where
      "environ ''VSCODE_SOCKPUPPET_PIPE'' = Some p" "p \<noteq> []" "truthy name" "\<not> truthy choice"
      "main environ h =
         session_run p a b
          (asked g folders name @ picked name c choice @
           [Call status_bar_request (Inr s), completion_line])
          None x"
  | (selection_raises) p a b g folders name c choice e x where
      "environ ''VSCODE_SOCKPUPPET_PIPE'' = Some p" "p \<noteq> []" "truthy name" "truthy choice"
      "main environ h =
         session_run p a b
          (asked g folders name @ picked name c choice @
           [Call (selection_request choice) (Inl e)])
          (Some e) x"
  | (selected_status_raises) p a b g folders name c choice n e x where
      "environ ''VSCODE_SOCKPUPPET_PIPE'' = Some p" "p \<noteq> []" "truthy name" "truthy choice"
      "main environ h =
         session_run p a b
          (asked g folders name @ picked name c choice @
           [Call (selection_request choice) (Inr n), Call status_bar_request (Inl e)])
          (Some e) x"
  | (selected_completed) p a b g folders name c choice n s x where
      "environ ''VSCODE_SOCKPUPPET_PIPE'' = Some p" "p \<noteq> []" "truthy name" "truthy choice"
      "main environ h =
         session_run p a b
          (asked g folders name @ picked name c choice @
           [Call (selection_request choice) (Inr n), Call status_bar_request (Inr s),
            completion_line])
          None x"
proof (cases "environ ''VSCODE_SOCKPUPPET_PIPE''")
  case None
  then have "main environ h = missing_address"
    by (simp add: main_def)
  with None show thesis by (rule unset)
next
  case env: (Some p)
  show thesis
  proof (cases "p = []")
    case True
    with env have "main environ h = missing_address"
      by (simp add: main_def)
    with env [unfolded True] show thesis by (rule empty)
  next
    case ne: False
    show thesis
    proof (cases "h [connecting_line p] (Construct p)")
      case (Inl e)
      with env ne have "main environ h =
          \<lparr>trace = [connecting_line p, Call (Construct p) (Inl e), error_line e], exit_code = 1\<rparr>"
        by (simp add: main_def with_client_def call_eq print_line_def)
      with env ne show thesis by (rule construct_raises)
    next
      case a: (Inr a)
      show thesis
      proof (cases "h [connecting_line p, Call (Construct p) (Inr a)] ScopeEnter")
        case (Inl e)
        with env ne a have "main environ h =
            \<lparr>trace = [connecting_line p, Call (Construct p) (Inr a), Call ScopeEnter (Inl e),
                      error_line e],
             exit_code = 1\<rparr>"
          by (simp add: main_def with_client_def call_eq print_line_def)
        with env ne show thesis by (rule enter_raises)
      next
        case b: (Inr b)
        note session = main_session [of environ p h a b, OF env ne a b]
        show thesis
        proof (cases rule: with_body_cases
            [of h "[connecting_line p, Call (Construct p) (Inr a), Call ScopeEnter (Inr b)]"])
          case (body_greeting_raises e)
          from env ne session [OF body_greeting_raises(1)] show thesis by (rule greeting_raises)
          next
          case (body_folders_raises g e)
          from env ne session [OF body_folders_raises(1)] show thesis by (rule folders_raises)
          next
          case (body_input_raises g folders e)
          from env ne session [OF body_input_raises(1)] show thesis by (rule input_raises)
          next
          case (body_no_name_status_raises g folders name e)
          from env ne body_no_name_status_raises(1) session [OF body_no_name_status_raises(2)] show thesis by (rule no_name_status_raises)
          next
          case (body_no_name_completed g folders name s)
          from env ne body_no_name_completed(1) session [OF body_no_name_completed(2)] show thesis by (rule no_name_completed)
          next
          case (body_channel_raises g folders name e)
          from env ne body_channel_raises(1) session [OF body_channel_raises(2)] show thesis by (rule channel_raises)
          next
          case (body_pick_raises g folders name c e)
          from env ne body_pick_raises(1) session [OF body_pick_raises(2)] show thesis by (rule pick_raises)
          next
          case (body_no_choice_status_raises g folders name c choice e)
          from env ne body_no_choice_status_raises(1) body_no_choice_status_raises(2) session [OF body_no_choice_status_raises(3)] show thesis by (rule no_choice_status_raises)
          next
          case (body_no_choice_completed g folders name c choice s)
          from env ne body_no_choice_completed(1) body_no_choice_completed(2) session [OF body_no_choice_completed(3)] show thesis by (rule no_choice_completed)
          next
          case (body_selection_raises g folders name c choice e)
          from env ne body_selection_raises(1) body_selection_raises(2) session [OF body_selection_raises(3)] show thesis by (rule selection_raises)
          next
          case (body_selected_status_raises g folders name c choice n e)
          from env ne body_selected_status_raises(1) body_selected_status_raises(2) session [OF body_selected_status_raises(3)] show thesis by (rule selected_status_raises)
          next
          case (body_selected_completed g folders name c choice n s)
          from env ne body_selected_completed(1) body_selected_completed(2) session [OF body_selected_completed(3)] show thesis by (rule selected_completed)
        qed
      qed
    qed
  qed
qed

section \<open>Reading a run\<close>

text \<open>Facts that let the simplifier read the observations off a run of known shape.\<close>

lemma raised_Call: "raised (Call req r) = isl r"
  by (cases r) simp_all

lemma ui_raised_Call: "ui_raised (Call req r) = (isl r \<and> is_ui req)"
  by (cases r) simp_all

lemma exit_outcome_unfold:
  "exit_outcome pending x = (case x of Inl e' \<Rightarrow> Some e' | Inr v \<Rightarrow> pending)"
  by (cases x) simp_all

lemma session_trace:
  "trace (session_run p a b evs pending x) =
     [connecting_line p, Call (Construct p) (Inr a), Call ScopeEnter (Inr b)] @ evs @
     Call (ScopeExit pending) x #
     (case exit_outcome pending x of None \<Rightarrow> [] | Some e \<Rightarrow> [error_line e])"
  by (cases "exit_outcome pending x") (simp_all add: session_run_def print_line_def)

lemma session_exit_code:
  "exit_code (session_run p a b evs pending x) =
     (case exit_outcome pending x of None \<Rightarrow> 0 | Some e \<Rightarrow> 1)"
  by (cases "exit_outcome pending x") (simp_all add: session_run_def)

lemmas run_simps =
  session_trace session_exit_code missing_address_def print_line_def
  exit_outcome_unfold raised_Call ui_raised_Call is_ui_def

lemma repr_ws_a: "repr_str ''/ws/a'' = CHR 0x27 # ''/ws/a'' @ [CHR 0x27]"
  by (simp add: repr_str_def repr_char_def py_printable_def Let_def)

section \<open>Sample runs\<close>

text \<open>The script run against the mock hosts, evaluated step by step.\<close>

lemmas eval_simps =
  main_def with_client_def with_body_def name_block_def leave_scope_def call_eq print_line_def
  missing_address_def mock_host_def failing_at_def scripted_def
  launched_environ_def bare_environ_def home_environ_def

lemma ada_run:
  "main launched_environ ada_host =
     \<lparr>trace =
        [connecting_line ''/tmp/sockpuppet.sock'',
         Call (Construct ''/tmp/sockpuppet.sock'') (Inr PyNone), Call ScopeEnter (Inr PyNone)] @
        asked PyNone (PyList [PyStr ''/ws/a'']) (PyStr ''Ada'') @
        picked (PyStr ''Ada'') PyNone (PyStr ''Option B'') @
        [Call (selection_request (PyStr ''Option B'')) (Inr PyNone),
         Call status_bar_request (Inr PyNone), completion_line, Call (ScopeExit None) (Inr PyNone)],
      exit_code = 0\<rparr>"
  by (simp add: eval_simps ada_host_def)

lemma cancelled_run:
  "main launched_environ cancelling_host =
     \<lparr>trace =
        [connecting_line ''/tmp/sockpuppet.sock'',
         Call (Construct ''/tmp/sockpuppet.sock'') (Inr PyNone), Call ScopeEnter (Inr PyNone)] @
        asked PyNone (PyList [PyStr ''/ws/a'']) PyNone @
        [Call status_bar_request (Inr PyNone), completion_line, Call (ScopeExit None) (Inr PyNone)],
      exit_code = 0\<rparr>"
  by (simp add: eval_simps cancelling_host_def)

lemma silent_run:
  "main launched_environ silent_host =
     \<lparr>trace =
        [connecting_line ''/tmp/sockpuppet.sock'',
         Call (Construct ''/tmp/sockpuppet.sock'') (Inr PyNone), Call ScopeEnter (Inr PyNone)] @
        asked PyNone (PyList []) (PyStr []) @
        [Call status_bar_request (Inr PyNone), completion_line, Call (ScopeExit None) (Inr PyNone)],
      exit_code = 0\<rparr>"
  by (simp add: eval_simps silent_host_def)

lemma undecided_run:
  "main launched_environ undecided_host =
     \<lparr>trace =
        [connecting_line ''/tmp/sockpuppet.sock'',
         Call (Construct ''/tmp/sockpuppet.sock'') (Inr PyNone), Call ScopeEnter (Inr PyNone)] @
        asked PyNone (PyList [PyStr ''/ws/a'']) (PyStr ''Ada'') @
        picked (PyStr ''Ada'') PyNone PyNone @
        [Call status_bar_request (Inr PyNone), completion_line, Call (ScopeExit None) (Inr PyNone)],
      exit_code = 0\<rparr>"
  by (simp add: eval_simps undecided_host_def)

lemma unreachable_run:
  "main launched_environ unreachable_host =
     \<lparr>trace =
        [connecting_line ''/tmp/sockpuppet.sock'',
         Call (Construct ''/tmp/sockpuppet.sock'') (Inl no_pipe), error_line no_pipe],
      exit_code = 1\<rparr>"
  by (simp add: eval_simps unreachable_host_def)

lemma closed_run:
  "main launched_environ closed_host =
     \<lparr>trace =
        [connecting_line ''/tmp/sockpuppet.sock'',
         Call (Construct ''/tmp/sockpuppet.sock'') (Inr PyNone), Call ScopeEnter (Inl no_pipe),
         error_line no_pipe],
      exit_code = 1\<rparr>"
  by (simp add: eval_simps closed_host_def ada_host_def)

lemma stalled_run:
  "main launched_environ stalling_host =
     \<lparr>trace =
        [connecting_line ''/tmp/sockpuppet.sock'',
         Call (Construct ''/tmp/sockpuppet.sock'') (Inr PyNone), Call ScopeEnter (Inr PyNone)] @
        asked PyNone (PyList [PyStr ''/ws/a'']) (PyStr ''Ada'') @
        [Call (output_channel_request (PyStr ''Ada'')) (Inr PyNone),
         Call (quick_pick_request (PyStr ''Ada'')) (Inl timed_out),
         Call (ScopeExit (Some timed_out)) (Inr PyNone), error_line timed_out],
      exit_code = 1\<rparr>"
  by (simp add: eval_simps stalling_host_def ada_host_def)

lemma double_fault_run:
  "main launched_environ double_fault_host =
     \<lparr>trace =
        [connecting_line ''/tmp/sockpuppet.sock'',
         Call (Construct ''/tmp/sockpuppet.sock'') (Inr PyNone), Call ScopeEnter (Inr PyNone)] @
        asked PyNone (PyList [PyStr ''/ws/a'']) (PyStr ''Ada'') @
        [Call (output_channel_request (PyStr ''Ada'')) (Inr PyNone),
         Call (quick_pick_request (PyStr ''Ada'')) (Inl timed_out),
         Call (ScopeExit (Some timed_out)) (Inl broken_pipe), error_line broken_pipe],
      exit_code = 1\<rparr>"
  by (simp add: eval_simps double_fault_host_def stalling_host_def ada_host_def)

lemma scripted_run: "main home_environ (scripted ada_script) = main launched_environ ada_host"
  by (simp add: eval_simps ada_host_def ada_script_def)

section \<open>A run is a function of the address and the answers\<close>

text \<open>
  Running the script again against a host that only replays the answers of a run gives
  the same run: nothing but the address and the answers decides what the script does.
\<close>

lemma replay: "main environ h = main environ (scripted (responses_of (trace (main environ h))))"
  by (cases rule: main_cases [of environ h]; simp only: ;
      simp (no_asm_simp) add: eval_simps run_simps session_run_def split: sum.splits)

lemma main_environ_cong:
  "environ1 ''VSCODE_SOCKPUPPET_PIPE'' = environ2 ''VSCODE_SOCKPUPPET_PIPE'' \<Longrightarrow>
   main environ1 h = main environ2 h"
  by (simp add: main_def)

section \<open>Properties of the script\<close>

text \<open>
  C1. In every run in which \<^verbatim>\<open>VSCODE_SOCKPUPPET_PIPE\<close> is absent or bound to the empty
  string, the program prints the two lines of its diagnostic and nothing else, ends with
  exit code 1, and makes no request at all: the session constructor is never called.
\<close>

theorem missing_address_exits_1:
  assumes "environ ''VSCODE_SOCKPUPPET_PIPE'' = None \<or>
           environ ''VSCODE_SOCKPUPPET_PIPE'' = Some []"
  shows "output_of (trace (main environ h)) =
           [''Error: VSCODE_SOCKPUPPET_PIPE environment variable not set'',
            ''This script should be launched by an extension using Sockpuppet API''] \<and>
         exit_code (main environ h) = 1 \<and>
         requests_of (trace (main environ h)) = []"
  using assms by (auto simp: main_def missing_address_def print_line_def)

text \<open>The theorem at an environment that has no such variable.\<close>

theorem missing_address_exits_1_witness:
  "bare_environ ''VSCODE_SOCKPUPPET_PIPE'' = None \<and>
   output_of (trace (main bare_environ ada_host)) =
     [''Error: VSCODE_SOCKPUPPET_PIPE environment variable not set'',
      ''This script should be launched by an extension using Sockpuppet API''] \<and>
   exit_code (main bare_environ ada_host) = 1 \<and>
   requests_of (trace (main bare_environ ada_host)) = []"
proof -
  have unset: "bare_environ ''VSCODE_SOCKPUPPET_PIPE'' = None"
    by (simp add: bare_environ_def)
  then have "bare_environ ''VSCODE_SOCKPUPPET_PIPE'' = None \<or>
      bare_environ ''VSCODE_SOCKPUPPET_PIPE'' = Some []" ..
  from missing_address_exits_1 [of bare_environ ada_host, OF this] unset show ?thesis by simp
qed

text \<open>
  C2. In every run with the address set in which no call raises and the host answers the
  workspace folders \<^verbatim>\<open>["/ws/a"]\<close>, the input box \<^verbatim>\<open>"Ada"\<close> and the quick pick
  \<^verbatim>\<open>"Option B"\<close>, the program prints the folder list, asks for an output channel whose text
  greets Ada, for a notification that names Option B and for a status bar message of 5000
  milliseconds, and ends with exit code 0. The theorem gives the whole run: every line
  printed and every request, in order.
\<close>

theorem full_run_with_name_and_selection:
  assumes "environ ''VSCODE_SOCKPUPPET_PIPE'' = Some p" and "p \<noteq> []"
    and "answer_to is_get_folders (trace (main environ h)) = Some (Inr (PyList [PyStr ''/ws/a'']))"
    and "answer_to is_input_box (trace (main environ h)) = Some (Inr (PyStr ''Ada''))"
    and "answer_to is_quick_pick (trace (main environ h)) = Some (Inr (PyStr ''Option B''))"
    and "\<not> list_ex raised (trace (main environ h))"
  shows "output_of (trace (main environ h)) =
           [''Connecting to VS Code via: '' @ p, ''Workspace folders: ['/ws/a']'',
            ''Automation completed successfully''] \<and>
         requests_of (trace (main environ h)) =
           [Construct p, ScopeEnter,
            ShowInformationMessage ''Hello from Python! I was launched by another extension.'',
            GetWorkspaceFolders,
            ShowInputBox [(''prompt'', ''What's your name?''), (''placeholder'', ''Enter your name'')],
            CreateOutputChannel ''Python Automation''
              ''Hello, Ada! This is Python speaking.\<newline>'' True,
            ShowQuickPick [''Option A'', ''Option B'', ''Option C'']
              [(''placeholder'', ''Hi Ada, choose an option'')],
            ShowInformationMessage ''You selected: Option B'',
            SetStatusBarMessage ''Python automation completed!'' 5000,
            ScopeExit None] \<and>
         exit_code (main environ h) = 0"
  using assms
  by (cases rule: main_cases [of environ h])
     (auto simp: run_simps repr_ws_a split: sum.splits option.splits if_splits)

text \<open>The theorem at the mock editor whose user is Ada.\<close>

theorem full_run_with_name_and_selection_witness:
  "launched_environ ''VSCODE_SOCKPUPPET_PIPE'' = Some ''/tmp/sockpuppet.sock'' \<and>
   answer_to is_get_folders (trace (main launched_environ ada_host)) =
     Some (Inr (PyList [PyStr ''/ws/a''])) \<and>
   answer_to is_input_box (trace (main launched_environ ada_host)) = Some (Inr (PyStr ''Ada'')) \<and>
   answer_to is_quick_pick (trace (main launched_environ ada_host)) =
     Some (Inr (PyStr ''Option B'')) \<and>
   \<not> list_ex raised (trace (main launched_environ ada_host)) \<and>
   output_of (trace (main launched_environ ada_host)) =
     [''Connecting to VS Code via: /tmp/sockpuppet.sock'', ''Workspace folders: ['/ws/a']'',
      ''Automation completed successfully''] \<and>
   exit_code (main launched_environ ada_host) = 0"
proof -
  have env: "launched_environ ''VSCODE_SOCKPUPPET_PIPE'' = Some ''/tmp/sockpuppet.sock''"
    by (simp add: launched_environ_def)
  have ne: "''/tmp/sockpuppet.sock'' \<noteq> []"
    by simp
  have folders: "answer_to is_get_folders (trace (main launched_environ ada_host)) =
      Some (Inr (PyList [PyStr ''/ws/a'']))"
    by (simp add: ada_run)
  have name: "answer_to is_input_box (trace (main launched_environ ada_host)) =
      Some (Inr (PyStr ''Ada''))"
    by (simp add: ada_run)
  have choice: "answer_to is_quick_pick (trace (main launched_environ ada_host)) =
      Some (Inr (PyStr ''Option B''))"
    by (simp add: ada_run)
  have quiet: "\<not> list_ex raised (trace (main launched_environ ada_host))"
    by (simp add: ada_run)
  from full_run_with_name_and_selection
    [of launched_environ "''/tmp/sockpuppet.sock''" ada_host, OF env ne folders name choice quiet]
    env folders name choice quiet
  show ?thesis by simp
qed

text \<open>
  C3. In every run in which the input box returns \<^verbatim>\<open>None\<close>, the signal for a cancelled
  input, and no call raises, neither the output channel nor the quick pick is ever
  requested, the status bar message is still requested, and the exit code is 0. The UI
  actions of such a run are the four listed.
\<close>

theorem cancelled_input_skips_name_steps:
  assumes "answer_to is_input_box (trace (main environ h)) = Some (Inr PyNone)"
    and "\<not> list_ex raised (trace (main environ h))"
  shows "\<not> list_ex is_output_channel (requests_of (trace (main environ h))) \<and>
         \<not> list_ex is_quick_pick (requests_of (trace (main environ h))) \<and>
         status_bar_request \<in> set (requests_of (trace (main environ h))) \<and>
         filter is_ui (requests_of (trace (main environ h))) =
           [greeting_request, GetWorkspaceFolders, input_box_request, status_bar_request] \<and>
         exit_code (main environ h) = 0"
  using assms
  by (cases rule: main_cases [of environ h])
     (auto simp: run_simps split: sum.splits option.splits if_splits)

text \<open>The theorem at the mock editor whose user cancels the input box.\<close>

theorem cancelled_input_skips_name_steps_witness:
  "answer_to is_input_box (trace (main launched_environ cancelling_host)) = Some (Inr PyNone) \<and>
   \<not> list_ex raised (trace (main launched_environ cancelling_host)) \<and>
   \<not> list_ex is_output_channel (requests_of (trace (main launched_environ cancelling_host))) \<and>
   \<not> list_ex is_quick_pick (requests_of (trace (main launched_environ cancelling_host))) \<and>
   status_bar_request \<in> set (requests_of (trace (main launched_environ cancelling_host))) \<and>
   exit_code (main launched_environ cancelling_host) = 0"
proof -
  have cancelled: "answer_to is_input_box (trace (main launched_environ cancelling_host)) =
      Some (Inr PyNone)"
    by (simp add: cancelled_run)
  have quiet: "\<not> list_ex raised (trace (main launched_environ cancelling_host))"
    by (simp add: cancelled_run)
  from cancelled_input_skips_name_steps [of launched_environ cancelling_host, OF cancelled quiet]
    cancelled quiet
  show ?thesis by simp
qed

text \<open>
  C4. In every run in which the input box returns a name (a value that counts as true),
  the quick pick returns \<^verbatim>\<open>None\<close>, the signal for no selection, and no call raises, the
  output channel is requested, the only notification of the run is the greeting (the one
  that would embed the selection is never requested), the status bar message is still
  requested, and the exit code is 0.
\<close>

theorem cancelled_pick_skips_second_notification:
  assumes "answer_to is_input_box (trace (main environ h)) = Some (Inr name)"
    and "truthy name"
    and "answer_to is_quick_pick (trace (main environ h)) = Some (Inr PyNone)"
    and "\<not> list_ex raised (trace (main environ h))"
  shows "output_channel_request name \<in> set (requests_of (trace (main environ h))) \<and>
         filter is_notification (requests_of (trace (main environ h))) = [greeting_request] \<and>
         status_bar_request \<in> set (requests_of (trace (main environ h))) \<and>
         filter is_ui (requests_of (trace (main environ h))) =
           [greeting_request, GetWorkspaceFolders, input_box_request,
            output_channel_request name, quick_pick_request name, status_bar_request] \<and>
         exit_code (main environ h) = 0"
  using assms
  by (cases rule: main_cases [of environ h])
     (auto simp: run_simps split: sum.splits option.splits if_splits)

text \<open>The theorem at the mock editor whose user gives a name and then picks nothing.\<close>

theorem cancelled_pick_skips_second_notification_witness:
  "answer_to is_input_box (trace (main launched_environ undecided_host)) =
     Some (Inr (PyStr ''Ada'')) \<and>
   truthy (PyStr ''Ada'') \<and>
   answer_to is_quick_pick (trace (main launched_environ undecided_host)) = Some (Inr PyNone) \<and>
   \<not> list_ex raised (trace (main launched_environ undecided_host)) \<and>
   output_channel_request (PyStr ''Ada'') \<in>
     set (requests_of (trace (main launched_environ undecided_host))) \<and>
   filter is_notification (requests_of (trace (main launched_environ undecided_host))) =
     [greeting_request] \<and>
   status_bar_request \<in> set (requests_of (trace (main launched_environ undecided_host))) \<and>
   exit_code (main launched_environ undecided_host) = 0"
proof -
  have name: "answer_to is_input_box (trace (main launched_environ undecided_host)) =
      Some (Inr (PyStr ''Ada''))"
    by (simp add: undecided_run)
  have named: "truthy (PyStr ''Ada'')"
    by simp
  have no_pick: "answer_to is_quick_pick (trace (main launched_environ undecided_host)) =
      Some (Inr PyNone)"
    by (simp add: undecided_run)
  have quiet: "\<not> list_ex raised (trace (main launched_environ undecided_host))"
    by (simp add: undecided_run)
  from cancelled_pick_skips_second_notification
    [of launched_environ undecided_host "PyStr ''Ada''", OF name named no_pick quiet]
    name named no_pick quiet
  show ?thesis by simp
qed

text \<open>
  C5, as amended. In every run in which opening the session raises an error, be it in
  the constructor or in \<^verbatim>\<open>__enter__\<close>, no UI action is ever requested and the scope exit
  is not called either: the \<^verbatim>\<open>with\<close> statement calls \<^verbatim>\<open>__exit__\<close> only for a scope that
  was entered. All that follows the failed call is the line \<^verbatim>\<open>Error: \<close> with the
  description of the error, and the exit code is 1.
\<close>

theorem failed_opening_is_reported:
  assumes "is_construct req \<or> is_scope_enter req"
    and "Call req (Inl e) \<in> set (trace (main environ h))"
  shows "\<not> list_ex is_ui (requests_of (trace (main environ h))) \<and>
         \<not> list_ex is_scope_exit (requests_of (trace (main environ h))) \<and>
         events_after (Call req (Inl e)) (trace (main environ h)) = [error_line e] \<and>
         exit_code (main environ h) = 1"
  using assms
  by (cases rule: main_cases [of environ h])
     (auto simp: run_simps split: sum.splits option.splits if_splits)

text \<open>The theorem at a host whose constructor finds no pipe to connect to.\<close>

theorem failed_opening_is_reported_witness:
  "is_construct (Construct ''/tmp/sockpuppet.sock'') \<and>
   Call (Construct ''/tmp/sockpuppet.sock'') (Inl no_pipe) \<in>
     set (trace (main launched_environ unreachable_host)) \<and>
   \<not> list_ex is_ui (requests_of (trace (main launched_environ unreachable_host))) \<and>
   \<not> list_ex is_scope_exit (requests_of (trace (main launched_environ unreachable_host))) \<and>
   events_after (Call (Construct ''/tmp/sockpuppet.sock'') (Inl no_pipe))
     (trace (main launched_environ unreachable_host)) = [error_line no_pipe] \<and>
   exit_code (main launched_environ unreachable_host) = 1"
proof -
  have kind: "is_construct (Construct ''/tmp/sockpuppet.sock'') \<or>
      is_scope_enter (Construct ''/tmp/sockpuppet.sock'')"
    by simp
  have failed: "Call (Construct ''/tmp/sockpuppet.sock'') (Inl no_pipe) \<in>
      set (trace (main launched_environ unreachable_host))"
    by (simp add: unreachable_run)
  from failed_opening_is_reported
    [of "Construct ''/tmp/sockpuppet.sock''" no_pipe launched_environ unreachable_host,
      OF kind failed] failed
  show ?thesis by simp
qed

text \<open>
  The claim as it was stated, with the release still invoked after a failed opening,
  fails at a host whose \<^verbatim>\<open>__enter__\<close> raises: the run has no scope exit.
\<close>

theorem failed_opening_release_counterexample:
  "Call ScopeEnter (Inl no_pipe) \<in> set (trace (main launched_environ closed_host)) \<and>
   \<not> list_ex is_scope_exit (requests_of (trace (main launched_environ closed_host)))"
  by (simp add: closed_run)

text \<open>
  C6, as amended. In every run in which a UI action raises an error, no later step of
  the sequence is executed and the session is still released: the one request that
  follows the failed call is the scope exit, with the error. One line is printed after
  it, \<^verbatim>\<open>Error: \<close> with a description, whatever the class of the error: the description
  of the error the call raised, unless the scope exit raises an error of its own, which
  then takes its place at the handler and is the one described. The exit code is 1.
\<close>

theorem failed_call_ends_sequence:
  assumes "is_ui req"
    and "Call req (Inl e) \<in> set (trace (main environ h))"
  shows "requests_of (events_after (Call req (Inl e)) (trace (main environ h))) =
           [ScopeExit (Some e)] \<and>
         output_of (events_after (Call req (Inl e)) (trace (main environ h))) =
           [''Error: '' @
            exc_str (case answer_to is_scope_exit (trace (main environ h)) of
                       Some (Inl e') \<Rightarrow> e'
                     | _ \<Rightarrow> e)] \<and>
         exit_code (main environ h) = 1"
  using assms
  by (cases rule: main_cases [of environ h])
     (auto simp: run_simps split: sum.splits option.splits if_splits)

text \<open>The theorem at a host whose quick pick times out.\<close>

theorem failed_call_ends_sequence_witness:
  "is_ui (quick_pick_request (PyStr ''Ada'')) \<and>
   Call (quick_pick_request (PyStr ''Ada'')) (Inl timed_out) \<in>
     set (trace (main launched_environ stalling_host)) \<and>
   requests_of (events_after (Call (quick_pick_request (PyStr ''Ada'')) (Inl timed_out))
     (trace (main launched_environ stalling_host))) = [ScopeExit (Some timed_out)] \<and>
   output_of (events_after (Call (quick_pick_request (PyStr ''Ada'')) (Inl timed_out))
     (trace (main launched_environ stalling_host))) = [''Error: request timed out''] \<and>
   exit_code (main launched_environ stalling_host) = 1"
proof -
  have kind: "is_ui (quick_pick_request (PyStr ''Ada''))"
    by (simp add: is_ui_def)
  have failed: "Call (quick_pick_request (PyStr ''Ada'')) (Inl timed_out) \<in>
      set (trace (main launched_environ stalling_host))"
    by (simp add: stalled_run)
  have released: "answer_to is_scope_exit (trace (main launched_environ stalling_host)) =
      Some (Inr PyNone)"
    by (simp add: stalled_run)
  from failed_call_ends_sequence
    [of "quick_pick_request (PyStr ''Ada'')" timed_out launched_environ stalling_host,
      OF kind failed] kind failed released
  show ?thesis by (simp add: timed_out_def)
qed

text \<open>
  The claim as it was stated, with the error of the failed call printed in every such
  run, fails at a host whose quick pick times out and whose \<^verbatim>\<open>__exit__\<close> then raises an
  error too: the only error line of the run describes the second error.
\<close>

theorem failed_call_printed_counterexample:
  "is_ui (quick_pick_request (PyStr ''Ada'')) \<and>
   Call (quick_pick_request (PyStr ''Ada'')) (Inl timed_out) \<in>
     set (trace (main launched_environ double_fault_host)) \<and>
   ''Error: '' @ exc_str timed_out \<notin> set (output_of (trace (main launched_environ double_fault_host))) \<and>
   output_of (trace (main launched_environ double_fault_host)) =
     [''Connecting to VS Code via: /tmp/sockpuppet.sock'', ''Workspace folders: ['/ws/a']'',
      ''Error: pipe closed'']"
  by (simp add: double_fault_run is_ui_def timed_out_def broken_pipe_def repr_ws_a)

text \<open>
  C7, as amended. In every run that reaches an open session the UI actions are requested
  one after the other in the order the specification fixes, none out of its place and
  none twice: what the run requests is, in order, part of the specification's sequence
  for the name and the choice the run obtained. The output channel and the quick pick
  are requested only if the input box returned a name, and a second notification only
  if the quick pick returned a selection. A call that raises ends the sequence; in every
  run in which no UI action raises, whatever the name and the choice, the first three
  requests are the notification, the workspace folders and the input box, the status bar
  message is requested last, and the event next to it is the printing of the completion
  message.
\<close>

theorem calls_follow_spec_sequence:
  assumes "answer_to is_scope_enter (trace (main environ h)) = Some (Inr b)"
  shows "subseq (filter is_ui (requests_of (trace (main environ h))))
           (spec_sequence (returned is_input_box (trace (main environ h)))
              (returned is_quick_pick (trace (main environ h)))) \<and>
         distinct (requests_of (trace (main environ h))) \<and>
         (list_ex is_output_channel (requests_of (trace (main environ h))) \<or>
          list_ex is_quick_pick (requests_of (trace (main environ h))) \<longrightarrow>
            obtained (returned is_input_box (trace (main environ h)))) \<and>
         (1 < length (filter is_notification (requests_of (trace (main environ h)))) \<longrightarrow>
            obtained (returned is_quick_pick (trace (main environ h)))) \<and>
         (\<not> list_ex ui_raised (trace (main environ h)) \<longrightarrow>
            take 3 (filter is_ui (requests_of (trace (main environ h)))) =
              [greeting_request, GetWorkspaceFolders, input_box_request] \<and>
            filter is_ui (requests_of (events_from is_status_bar (trace (main environ h)))) =
              [status_bar_request] \<and>
            tl (take 2 (events_from is_status_bar (trace (main environ h)))) =
              [completion_line])"
  using assms
  by (cases rule: main_cases [of environ h])
     (auto simp: run_simps spec_sequence_def returned_def obtained_def
           split: sum.splits option.splits if_splits)

text \<open>
  The theorem at the mock editor whose user is Ada: the whole sequence is requested.
\<close>

theorem calls_follow_spec_sequence_witness:
  "answer_to is_scope_enter (trace (main launched_environ ada_host)) = Some (Inr PyNone) \<and>
   \<not> list_ex ui_raised (trace (main launched_environ ada_host)) \<and>
   subseq (filter is_ui (requests_of (trace (main launched_environ ada_host))))
     [greeting_request, GetWorkspaceFolders, input_box_request,
      output_channel_request (PyStr ''Ada''), quick_pick_request (PyStr ''Ada''),
      selection_request (PyStr ''Option B''), status_bar_request] \<and>
   distinct (requests_of (trace (main launched_environ ada_host))) \<and>
   list_ex is_output_channel (requests_of (trace (main launched_environ ada_host))) \<and>
   obtained (returned is_input_box (trace (main launched_environ ada_host))) \<and>
   1 < length (filter is_notification (requests_of (trace (main launched_environ ada_host)))) \<and>
   obtained (returned is_quick_pick (trace (main launched_environ ada_host))) \<and>
   take 3 (filter is_ui (requests_of (trace (main launched_environ ada_host)))) =
     [greeting_request, GetWorkspaceFolders, input_box_request] \<and>
   filter is_ui (requests_of (events_from is_status_bar (trace (main launched_environ ada_host)))) =
     [status_bar_request] \<and>
   tl (take 2 (events_from is_status_bar (trace (main launched_environ ada_host)))) =
     [completion_line]"
proof -
  have opened: "answer_to is_scope_enter (trace (main launched_environ ada_host)) =
      Some (Inr PyNone)"
    by (simp add: ada_run)
  have quiet: "\<not> list_ex ui_raised (trace (main launched_environ ada_host))"
    by (simp add: ada_run)
  have name: "returned is_input_box (trace (main launched_environ ada_host)) =
      Some (PyStr ''Ada'')"
    by (simp add: ada_run returned_def)
  have choice: "returned is_quick_pick (trace (main launched_environ ada_host)) =
      Some (PyStr ''Option B'')"
    by (simp add: ada_run returned_def)
  have channel: "list_ex is_output_channel (requests_of (trace (main launched_environ ada_host)))"
    by (simp add: ada_run)
  have second: "1 < length (filter is_notification
      (requests_of (trace (main launched_environ ada_host))))"
    by (simp add: ada_run)
  from calls_follow_spec_sequence [of launched_environ ada_host PyNone, OF opened]
    opened quiet channel second
  show ?thesis by (simp add: name choice spec_sequence_def)
qed

text \<open>
  The claim as it was stated, with the status bar message requested in every run that
  reaches an open session, fails at a host whose quick pick times out: the session is
  open, and the run has neither the status bar request nor the completion message.
\<close>

theorem status_bar_unconditional_counterexample:
  "answer_to is_scope_enter (trace (main launched_environ stalling_host)) = Some (Inr PyNone) \<and>
   status_bar_request \<notin> set (requests_of (trace (main launched_environ stalling_host))) \<and>
   completion_line \<notin> set (trace (main launched_environ stalling_host))"
  by (simp add: stalled_run)

text \<open>
  C8. In every run in which the input box returns the empty string, a string and not the
  signal for a cancelled input, and no call raises, the program does what it does after a
  cancelled input: neither the output channel nor the quick pick is requested, the
  status bar message is requested, the UI actions are the same four, and the exit code
  is 0. The test \<^verbatim>\<open>if name:\<close> is one of truth, not of being \<^verbatim>\<open>None\<close>.
\<close>

theorem empty_name_is_like_cancel:
  assumes "answer_to is_input_box (trace (main environ h)) = Some (Inr (PyStr []))"
    and "\<not> list_ex raised (trace (main environ h))"
  shows "\<not> list_ex is_output_channel (requests_of (trace (main environ h))) \<and>
         \<not> list_ex is_quick_pick (requests_of (trace (main environ h))) \<and>
         status_bar_request \<in> set (requests_of (trace (main environ h))) \<and>
         filter is_ui (requests_of (trace (main environ h))) =
           [greeting_request, GetWorkspaceFolders, input_box_request, status_bar_request] \<and>
         exit_code (main environ h) = 0"
  using assms
  by (cases rule: main_cases [of environ h])
     (auto simp: run_simps split: sum.splits option.splits if_splits)

text \<open>The theorem at the mock editor whose user confirms an empty input box.\<close>

theorem empty_name_is_like_cancel_witness:
  "answer_to is_input_box (trace (main launched_environ silent_host)) = Some (Inr (PyStr [])) \<and>
   \<not> list_ex raised (trace (main launched_environ silent_host)) \<and>
   \<not> list_ex is_output_channel (requests_of (trace (main launched_environ silent_host))) \<and>
   \<not> list_ex is_quick_pick (requests_of (trace (main launched_environ silent_host))) \<and>
   status_bar_request \<in> set (requests_of (trace (main launched_environ silent_host))) \<and>
   exit_code (main launched_environ silent_host) = 0"
proof -
  have empty: "answer_to is_input_box (trace (main launched_environ silent_host)) =
      Some (Inr (PyStr []))"
    by (simp add: silent_run)
  have quiet: "\<not> list_ex raised (trace (main launched_environ silent_host))"
    by (simp add: silent_run)
  from empty_name_is_like_cancel [of launched_environ silent_host, OF empty quiet] empty quiet
  show ?thesis by simp
qed

text \<open>
  C9. Two runs that have the same value of \<^verbatim>\<open>VSCODE_SOCKPUPPET_PIPE\<close> (the rest of the
  environment may differ) and get the same sequence of answers, values or errors, from
  their hosts make the same requests, print the same lines and end with the same exit
  code.
\<close>

theorem run_determined_by_address_and_answers:
  assumes "environ1 ''VSCODE_SOCKPUPPET_PIPE'' = environ2 ''VSCODE_SOCKPUPPET_PIPE''"
    and "responses_of (trace (main environ1 h1)) = responses_of (trace (main environ2 h2))"
  shows "requests_of (trace (main environ1 h1)) = requests_of (trace (main environ2 h2)) \<and>
         output_of (trace (main environ1 h1)) = output_of (trace (main environ2 h2)) \<and>
         exit_code (main environ1 h1) = exit_code (main environ2 h2)"
proof -
  let ?answers = "responses_of (trace (main environ1 h1))"
  have "main environ1 h1 = main environ1 (scripted ?answers)"
    by (rule replay)
  also have "\<dots> = main environ2 (scripted ?answers)"
    using assms(1) by (rule main_environ_cong)
  also have "\<dots> = main environ2 h2"
    unfolding assms(2) by (rule replay [symmetric])
  finally show ?thesis by simp
qed

text \<open>
  The theorem at the mock editor and at a host that plays its answers from a list, in
  an environment that has one more variable.
\<close>

theorem run_determined_by_address_and_answers_witness:
  "launched_environ ''VSCODE_SOCKPUPPET_PIPE'' = home_environ ''VSCODE_SOCKPUPPET_PIPE'' \<and>
   responses_of (trace (main launched_environ ada_host)) =
     responses_of (trace (main home_environ (scripted ada_script))) \<and>
   requests_of (trace (main launched_environ ada_host)) =
     requests_of (trace (main home_environ (scripted ada_script))) \<and>
   output_of (trace (main launched_environ ada_host)) =
     output_of (trace (main home_environ (scripted ada_script))) \<and>
   exit_code (main launched_environ ada_host) =
     exit_code (main home_environ (scripted ada_script))"
proof -
  have address: "launched_environ ''VSCODE_SOCKPUPPET_PIPE'' =
      home_environ ''VSCODE_SOCKPUPPET_PIPE''"
    by (simp add: home_environ_def)
  have answers: "responses_of (trace (main launched_environ ada_host)) =
      responses_of (trace (main home_environ (scripted ada_script)))"
    by (simp add: scripted_run)
  from run_determined_by_address_and_answers
    [of launched_environ home_environ ada_host "scripted ada_script", OF address answers]
    address answers
  show ?thesis by simp
qed

text \<open>
  C10. When the variable is set to a string that is not empty, the first event of the run
  is the printing of \<^verbatim>\<open>Connecting to VS Code via: \<close> with the address, and the first
  request is the call of the constructor: the line is printed before the session is
  asked for, in every such run, whatever the host answers, also when it cannot be
  reached. When the variable is absent or empty, no line of the output begins with these
  words.
\<close>

theorem connecting_line_comes_first:
  "(environ ''VSCODE_SOCKPUPPET_PIPE'' = Some p \<and> p \<noteq> [] \<longrightarrow>
      take 1 (trace (main environ h)) = [connecting_line p] \<and>
      take 1 (requests_of (trace (main environ h))) = [Construct p]) \<and>
   (environ ''VSCODE_SOCKPUPPET_PIPE'' = None \<or>
    environ ''VSCODE_SOCKPUPPET_PIPE'' = Some [] \<longrightarrow>
      \<not> list_ex (prefix ''Connecting to VS Code via: '') (output_of (trace (main environ h))))"
  by (cases rule: main_cases [of environ h])
     (auto simp: run_simps split: sum.splits option.splits if_splits)

text \<open>
  The theorem at a host that cannot be reached, and at an environment without the
  variable.
\<close>

theorem connecting_line_comes_first_witness:
  "launched_environ ''VSCODE_SOCKPUPPET_PIPE'' = Some ''/tmp/sockpuppet.sock'' \<and>
   take 1 (trace (main launched_environ unreachable_host)) =
     [connecting_line ''/tmp/sockpuppet.sock''] \<and>
   take 1 (requests_of (trace (main launched_environ unreachable_host))) =
     [Construct ''/tmp/sockpuppet.sock''] \<and>
   exit_code (main launched_environ unreachable_host) = 1 \<and>
   bare_environ ''VSCODE_SOCKPUPPET_PIPE'' = None \<and>
   \<not> list_ex (prefix ''Connecting to VS Code via: '')
     (output_of (trace (main bare_environ ada_host)))"
proof -
  have launched: "launched_environ ''VSCODE_SOCKPUPPET_PIPE'' = Some ''/tmp/sockpuppet.sock'' \<and>
      ''/tmp/sockpuppet.sock'' \<noteq> []"
    by (simp add: launched_environ_def)
  have unset: "bare_environ ''VSCODE_SOCKPUPPET_PIPE'' = None \<or>
      bare_environ ''VSCODE_SOCKPUPPET_PIPE'' = Some []"
    by (simp add: bare_environ_def)
  have failed: "exit_code (main launched_environ unreachable_host) = 1"
    by (simp add: unreachable_run)
  from connecting_line_comes_first
      [of launched_environ "''/tmp/sockpuppet.sock''" unreachable_host]
    connecting_line_comes_first [of bare_environ "[]" ada_host]
    launched unset failed
  show ?thesis by (simp add: bare_environ_def)
qed

end
